theory Spec2Isabelle
  imports Complex_Main "HOL-Library.Sublist"
begin

section \<open>The serial link manager of REACH/Software/app.py\<close>

text \<open>
  The module keeps its state in four globals: \<^verbatim>\<open>ser\<close> (the serial handle or
  \<^verbatim>\<open>None\<close>), \<^verbatim>\<open>history\<close> (a list of dicts), \<^verbatim>\<open>serial_buffer\<close>
  (a \<^verbatim>\<open>deque(maxlen=100)\<close> of dicts) and \<^verbatim>\<open>listener_active\<close>. Each function
  of the module is modelled as a function from the state, the request and what the outside
  world answers (clock readings, results of the calls on the serial port) to the reply and the
  new state. Clock readings are Python floats; they are modelled as reals. Strings are lists
  of characters.
\<close>

subsection \<open>Data\<close>

text \<open>A buffered line: \<^verbatim>\<open>{'timestamp': time.time(), 'data': line}\<close>.\<close>

record item =
  timestamp :: real
  data :: string

text \<open>A history entry: \<^verbatim>\<open>{'cmd': cmd, 'response': response, 'timestamp': timestamp}\<close>,
  the timestamp being an ISO string. The third field is named \<open>logged_at\<close> here, since
  \<open>timestamp\<close> already names the field of a buffered line.\<close>

record entry =
  cmd :: string
  response :: string
  logged_at :: string

text \<open>The \<^verbatim>\<open>serial.Serial\<close> object as far as the module looks at it: the port it
  was opened on and its \<^verbatim>\<open>is_open\<close> attribute.\<close>

record serial_port =
  port :: string
  is_open :: bool

record state =
  ser :: "serial_port option"
  history :: "entry list"
  serial_buffer :: "item list"
  listener_active :: bool

text \<open>A call that may raise: its value, or the text of the exception.\<close>

datatype 'a outcome = Returns 'a | Raises string

text \<open>What a route hands to \<^verbatim>\<open>jsonify\<close>: a dict with the keys
  \<^verbatim>\<open>status\<close> and \<^verbatim>\<open>message\<close>, or a parsed JSON payload passed through.
  A reply is the body with the HTTP status code.\<close>

datatype 'j body = Status string string | Parsed 'j

type_synonym 'j reply = "'j body \<times> nat"

subsection \<open>Strings\<close>

text \<open>\<^verbatim>\<open>str.strip()\<close> on ASCII text: the whitespace characters are the space,
  \<^verbatim>\<open>\t \n \v \f \r\<close> and the separators 0x1C to 0x1F.\<close>

definition is_space :: "char \<Rightarrow> bool" where
  "is_space c = (c \<in> set [CHR '' '', CHR 0x09, CHR 0x0A, CHR 0x0B, CHR 0x0C, CHR 0x0D,
                           CHR 0x1C, CHR 0x1D, CHR 0x1E, CHR 0x1F])"

definition strip :: "string \<Rightarrow> string" where
  "strip s = rev (dropWhile is_space (rev (dropWhile is_space s)))"

subsection \<open>The history\<close>

text \<open>
  \<^verbatim>\<open>
  def log_command(cmd, response):
      timestamp = datetime.datetime.now().isoformat()
      history.append({'cmd': cmd, 'response': response, 'timestamp': timestamp})
      if len(history) > 50:
          history.pop(0)
  \<close>
  The fourth argument is what \<^verbatim>\<open>datetime.datetime.now().isoformat()\<close> returns.
\<close>

definition log_command :: "entry list \<Rightarrow> string \<Rightarrow> string \<Rightarrow> string \<Rightarrow> entry list" where
  "log_command h c r now_iso =
     (let h' = h @ [\<lparr>cmd = c, response = r, logged_at = now_iso\<rparr>]
      in if length h' > 50 then tl h' else h')"


subsection \<open>The correlator\<close>

text \<open>
  \<^verbatim>\<open>
  def wait_for_new_response(since_time, timeout=2.0):
      start = time.time()
      grace = 0.05
      while time.time() - start < timeout:
          with serial_lock:
              for item in list(serial_buffer):
                  ts = item['timestamp']
                  if ts >= since_time - grace:
                      return item['data']
          time.sleep(0.01)
      return "No response"
  \<close>
\<close>

definition grace :: real where
  "grace = 0.05"

text \<open>The \<^verbatim>\<open>for\<close> loop over one snapshot \<^verbatim>\<open>list(serial_buffer)\<close>: the first
  item, front to back, that passes the test, if there is one.\<close>

fun scan_buffer :: "real \<Rightarrow> item list \<Rightarrow> item option" where
  "scan_buffer since_time [] = None"
| "scan_buffer since_time (it # rest) =
     (if timestamp it \<ge> since_time - grace then Some it else scan_buffer since_time rest)"

text \<open>The two \<^verbatim>\<open>return\<close> statements of the function.\<close>

datatype wait_exit = Matched item | Timed_out

text \<open>
  The \<^verbatim>\<open>while\<close> loop. The buffer is filled by the listener thread while the loop
  polls, so the loop is run against what it observes: for each evaluation of the loop
  condition, in order, the value \<^verbatim>\<open>time.time()\<close> returns there and the snapshot
  \<^verbatim>\<open>list(serial_buffer)\<close> the body takes if it runs. The result is \<open>None\<close> when
  the observations end before the loop has returned.
\<close>

fun wait_loop :: "real \<Rightarrow> real \<Rightarrow> real \<Rightarrow> (real \<times> item list) list \<Rightarrow> wait_exit option" where
  "wait_loop since_time timeout start [] = None"
| "wait_loop since_time timeout start ((now, snapshot) # later) =
     (if now - start < timeout then
        (case scan_buffer since_time snapshot of
           Some it \<Rightarrow> Some (Matched it)
         | None \<Rightarrow> wait_loop since_time timeout start later)
      else Some Timed_out)"

definition returned_text :: "wait_exit \<Rightarrow> string" where
  "returned_text e = (case e of Matched it \<Rightarrow> data it | Timed_out \<Rightarrow> ''No response'')"

text \<open>The function: \<open>start\<close> is the first clock reading, \<open>obs\<close> the observations of the
  loop.\<close>

definition wait_for_new_response ::
    "real \<Rightarrow> real \<Rightarrow> real \<Rightarrow> (real \<times> item list) list \<Rightarrow> string option" where
  "wait_for_new_response since_time timeout start obs =
     map_option returned_text (wait_loop since_time timeout start obs)"

subsection \<open>The command gateway\<close>

text \<open>
  The tail of \<^verbatim>\<open>send_command\<close>, from the test for the sentinel on:
  \<^verbatim>\<open>
        if response == "No response":
            return jsonify({'status': 'error', 'message': 'No response from robot'})
        try:
            parsed = json.loads(response)
            return jsonify(parsed)
        except:
            pass
        if response.startswith("ACK"):
            return jsonify({'status': 'success', 'message': response})
        elif response.startswith("ERR"):
            return jsonify({'status': 'error', 'message': response})
        else:
            return jsonify({'status': 'unknown', 'message': response})
  \<close>
  \<^verbatim>\<open>json.loads\<close> belongs to the standard library; it is a parameter here, with
  \<open>None\<close> where it raises. The local variable \<^verbatim>\<open>response\<close> is \<open>resp\<close> here.
\<close>

definition reply_for :: "(string \<Rightarrow> 'j option) \<Rightarrow> string \<Rightarrow> 'j reply" where
  "reply_for json_loads resp =
     (if resp = ''No response'' then (Status ''error'' ''No response from robot'', 200)
      else (case json_loads resp of
              Some parsed \<Rightarrow> (Parsed parsed, 200)
            | None \<Rightarrow>
                if prefix ''ACK'' resp then (Status ''success'' resp, 200)
                else if prefix ''ERR'' resp then (Status ''error'' resp, 200)
                else (Status ''unknown'' resp, 200)))"

text \<open>What one call of \<^verbatim>\<open>send_command\<close> gets from the outside, in the order of
  the calls: \<^verbatim>\<open>since = time.time()\<close>; the result of
  \<^verbatim>\<open>ser.write((cmd + '\n').encode())\<close>; the first clock reading and the observations
  of \<^verbatim>\<open>wait_for_new_response\<close>; the string
  \<^verbatim>\<open>datetime.datetime.now().isoformat()\<close> of \<^verbatim>\<open>log_command\<close>.\<close>

record send_io =
  since_clock :: real
  write_result :: "unit outcome"
  start_clock :: real
  polls :: "(real \<times> item list) list"
  log_clock :: string

text \<open>
  \<^verbatim>\<open>
  def send_command():
      global ser
      data = request.get_json()
      if not data or 'command' not in data:
          return jsonify({'status': 'error', 'message': 'No command provided'}), 400
      cmd = data['command'].strip()
      if ser is None or not ser.is_open:
          return jsonify({'status': 'error', 'message': 'Serial port not available'}), 500
      try:
          since = time.time()
          ser.write((cmd + '\n').encode())
          response = wait_for_new_response(since)
          log_command(cmd, response)
          ...
      except Exception as e:
          return jsonify({'status': 'error', 'message': 'Failed to send command'}), 500
  \<close>
  The request is \<open>None\<close> when the body is missing or has no \<^verbatim>\<open>command\<close>, and the
  command otherwise, which is taken to be a string. \<open>write_result\<close> stands for the
  encoding and the write together: both are inside the \<^verbatim>\<open>try\<close>. The result is the
  reply, the new state and the strings written to the port; it is \<open>None\<close> when the
  observations of the correlator end before it returns.
\<close>

definition send_command ::
    "(string \<Rightarrow> 'j option) \<Rightarrow> state \<Rightarrow> string option \<Rightarrow> send_io
      \<Rightarrow> ('j reply \<times> state \<times> string list) option" where
  "send_command json_loads s request io =
     (case request of
        None \<Rightarrow> Some ((Status ''error'' ''No command provided'', 400), s, [])
      | Some command \<Rightarrow>
          let cmd = strip command in
          if (case ser s of None \<Rightarrow> True | Some h \<Rightarrow> \<not> is_open h)
          then Some ((Status ''error'' ''Serial port not available'', 500), s, [])
          else
            (case write_result io of
               Raises e \<Rightarrow> Some ((Status ''error'' ''Failed to send command'', 500), s, [])
             | Returns u \<Rightarrow>
                 (case wait_for_new_response (since_clock io) 2.0 (start_clock io) (polls io) of
                    None \<Rightarrow> None
                  | Some resp \<Rightarrow>
                      Some (reply_for json_loads resp,
                            s\<lparr>history := log_command (history s) cmd resp (log_clock io)\<rparr>,
                            [cmd @ [CHR 0x0A]]))))"

subsection \<open>Connecting\<close>

text \<open>
  \<^verbatim>\<open>
  def connect():
      global ser
      data = request.get_json()
      port = data.get('port')
      if not port:
          return jsonify({'status': 'error', 'message': 'No port specified'}), 400
      try:
          if ser and ser.is_open:
              ser.close()
          ser = serial.Serial(port, BAUD_RATE, timeout=1)
          return jsonify({'status': 'success', 'message': f'Connected to {port}'})
      except Exception as e:
          return jsonify({'status': 'error', 'message': str(e)})
  \<close>
  The request is the value of \<^verbatim>\<open>data.get('port')\<close>. \<^verbatim>\<open>ser.close()\<close> acts on
  the object that \<^verbatim>\<open>ser\<close> refers to, and \<^verbatim>\<open>ser\<close> goes on referring to it
  until the assignment, which is reached only when \<^verbatim>\<open>serial.Serial\<close> has returned.
\<close>

record connect_io =
  close_result :: "unit outcome"
  open_result :: "unit outcome"

definition connect :: "state \<Rightarrow> string option \<Rightarrow> connect_io \<Rightarrow> 'j reply \<times> state" where
  "connect s request io =
     (case request of
        None \<Rightarrow> ((Status ''error'' ''No port specified'', 400), s)
      | Some p \<Rightarrow>
          if p = [] then ((Status ''error'' ''No port specified'', 400), s)
          else
            let closing = (case ser s of None \<Rightarrow> False | Some h \<Rightarrow> is_open h) in
            (case (if closing then close_result io else Returns ()) of
               Raises e \<Rightarrow> ((Status ''error'' e, 200), s)
             | Returns u \<Rightarrow>
                 let s1 = (if closing
                           then s\<lparr>ser := map_option (\<lambda>h. h\<lparr>is_open := False\<rparr>) (ser s)\<rparr>
                           else s)
                 in (case open_result io of
                       Raises e \<Rightarrow> ((Status ''error'' e, 200), s1)
                     | Returns v \<Rightarrow>
                         ((Status ''success'' (''Connected to '' @ p), 200),
                          s1\<lparr>ser := Some \<lparr>port = p, is_open = True\<rparr>\<rparr>))))"

subsection \<open>The listener\<close>






subsection \<open>The reconnector\<close>




subsection \<open>The lock\<close>

text \<open>
  The module has one lock, \<^verbatim>\<open>serial_lock = threading.Lock()\<close>. To see what it
  guards, each thread is reduced to the sequence of its calls on the lock, the port, the
  buffer, the history and the clock, in the order of the source text.
\<close>

datatype action =
    Acquire | Release
  | In_waiting | Readline | Write
  | Snapshot | Append | Log
  | Clock | Sleep

text \<open>One round of \<^verbatim>\<open>serial_listener\<close> that reads a line:
  \<^verbatim>\<open>with serial_lock:\<close> \<^verbatim>\<open>ser.in_waiting\<close>, \<^verbatim>\<open>ser.readline()\<close>,
  \<^verbatim>\<open>time.time()\<close>, \<^verbatim>\<open>serial_buffer.append\<close>, the end of the \<^verbatim>\<open>with\<close>
  block, \<^verbatim>\<open>time.sleep(0.01)\<close>.\<close>

definition serial_listener_actions :: "action list" where
  "serial_listener_actions = [Acquire, In_waiting, Readline, Clock, Append, Release, Sleep]"

text \<open>\<^verbatim>\<open>wait_for_new_response\<close>: \<^verbatim>\<open>start = time.time()\<close>, then \<open>n\<close> polls that
  find nothing (the loop condition reads the clock, the \<^verbatim>\<open>with\<close> block takes the
  snapshot, then the sleep), then either a poll that returns from inside the \<^verbatim>\<open>with\<close>
  block, or a loop condition that fails.\<close>

fun wait_polls :: "nat \<Rightarrow> bool \<Rightarrow> action list" where
  "wait_polls 0 matched = (if matched then [Clock, Acquire, Snapshot, Release] else [Clock])"
| "wait_polls (Suc n) matched = [Clock, Acquire, Snapshot, Release, Sleep] @ wait_polls n matched"

definition wait_for_new_response_actions :: "nat \<Rightarrow> bool \<Rightarrow> action list" where
  "wait_for_new_response_actions n matched = Clock # wait_polls n matched"

text \<open>\<^verbatim>\<open>send_command\<close> on an open connection: \<^verbatim>\<open>since = time.time()\<close>,
  \<^verbatim>\<open>ser.write(...)\<close>, \<^verbatim>\<open>wait_for_new_response(since)\<close>, then
  \<^verbatim>\<open>log_command\<close> (the clock, and the append to the history).\<close>

definition send_command_actions :: "nat \<Rightarrow> bool \<Rightarrow> action list" where
  "send_command_actions n matched =
     [Clock, Write] @ wait_for_new_response_actions n matched @ [Clock, Log]"

definition port_io :: "action \<Rightarrow> bool" where
  "port_io a = (a = In_waiting \<or> a = Readline \<or> a = Write)"

text \<open>A thread keeps the lock discipline when each of its calls on the port is made while it
  holds the lock; \<open>held\<close> tells whether it holds the lock before the first action.\<close>

fun port_io_locked :: "bool \<Rightarrow> action list \<Rightarrow> bool" where
  "port_io_locked held [] = True"
| "port_io_locked held (a # rest) =
     (if a = Acquire then port_io_locked True rest
      else if a = Release then port_io_locked False rest
      else if port_io a then held \<and> port_io_locked held rest
      else port_io_locked held rest)"

text \<open>The two threads running together: who holds the lock, what each thread has still to
  do, and whether a write of the gateway has been made while the listener was inside its
  locked read.\<close>

datatype thread = Listener | Gateway

record threads =
  owner :: "thread option"
  listener_todo :: "action list"
  gateway_todo :: "action list"
  write_during_read :: bool

text \<open>One thread makes its next action. \<open>None\<close>: the thread has nothing left to do, or it
  waits for the lock.\<close>

definition step :: "thread \<Rightarrow> threads \<Rightarrow> threads option" where
  "step t c =
     (case (case t of Listener \<Rightarrow> listener_todo c | Gateway \<Rightarrow> gateway_todo c) of
        [] \<Rightarrow> None
      | a # rest \<Rightarrow>
          let c1 = (case t of Listener \<Rightarrow> c\<lparr>listener_todo := rest\<rparr>
                            | Gateway \<Rightarrow> c\<lparr>gateway_todo := rest\<rparr>)
          in if a = Acquire then
               (if owner c = None then Some (c1\<lparr>owner := Some t\<rparr>) else None)
             else if a = Release then Some (c1\<lparr>owner := None\<rparr>)
             else if a = Write \<and> t = Gateway \<and> owner c = Some Listener then
               Some (c1\<lparr>write_during_read := True\<rparr>)
             else Some c1)"

fun run :: "thread list \<Rightarrow> threads \<Rightarrow> threads option" where
  "run [] c = Some c"
| "run (t # ts) c = (case step t c of None \<Rightarrow> None | Some c' \<Rightarrow> run ts c')"

subsection \<open>Sample runs\<close>

text \<open>A state with an open connection; a send whose first poll sees an empty buffer and
  whose second poll, 60 ms after the write, sees one line observed 50 ms after it; and a
  send to a device that stays silent until the timeout.\<close>

definition s_open :: state where
  "s_open = \<lparr>ser = Some \<lparr>port = ''COM3'', is_open = True\<rparr>, history = [], serial_buffer = [],
        listener_active = True\<rparr>"

definition io_reply :: "string \<Rightarrow> send_io" where
  "io_reply t = \<lparr>since_clock = 10, write_result = Returns (), start_clock = 10.001,
        polls = [(10.002, []), (10.06, [\<lparr>timestamp = 10.05, data = t\<rparr>])], log_clock = ''2024-01-01T00:00:10''\<rparr>"

definition io_silent :: send_io where
  "io_silent = \<lparr>since_clock = 10, write_result = Returns (), start_clock = 10.001,
        polls = [(10.002, []), (11, []), (12.002, [])], log_clock = ''2024-01-01T00:00:10''\<rparr>"



section \<open>Properties\<close>

subsection \<open>The history is a window of the last 50 exchanges\<close>







subsection \<open>The correlator returns the first fresh line, or the sentinel\<close>












subsection \<open>The command gateway\<close>

lemma send_command_connected:
  assumes "ser s = Some h" and "is_open h" and "write_result io = Returns ()"
    and "wait_for_new_response (since_clock io) 2 (start_clock io) (polls io) = Some resp"
  shows "send_command json_loads s (Some command) io
           = Some (reply_for json_loads resp,
                   s\<lparr>history := log_command (history s) (strip command) resp (log_clock io)\<rparr>,
                   [strip command @ [CHR 0x0A]])"
  using assms by (simp add: send_command_def Let_def)

text \<open>
  Claim C6. A send made with a command while \<^verbatim>\<open>ser\<close> is \<^verbatim>\<open>None\<close> or its
  handle is not open returns the reply \<^verbatim>\<open>Serial port not available\<close> (code 500)
  whatever the outside would answer: nothing is written, the state is unchanged and no
  observation of the correlator is needed, so the call does not wait. That reply differs
  from the reply for the sentinel of the timeout.
\<close>

theorem send_while_disconnected:
  assumes "ser s = None \<or> (\<exists>h. ser s = Some h \<and> \<not> is_open h)"
  shows "send_command json_loads s (Some command) io
           = Some ((Status ''error'' ''Serial port not available'', 500), s, []) \<and>
         send_command json_loads s (Some command) (io\<lparr>polls := []\<rparr>)
           = Some ((Status ''error'' ''Serial port not available'', 500), s, []) \<and>
         reply_for json_loads ''No response'' = (Status ''error'' ''No response from robot'', 200) \<and>
         reply_for json_loads ''No response'' \<noteq> (Status ''error'' ''Serial port not available'', 500)"
  using assms by (auto simp: send_command_def reply_for_def)

theorem send_while_disconnected_witness:
  "send_command (\<lambda>t. None :: unit option)
      \<lparr>ser = None, history = [], serial_buffer = [], listener_active = False\<rparr> (Some ''PING'')
      \<lparr>since_clock = 0, write_result = Returns (), start_clock = 0, polls = [], log_clock = ''''\<rparr>
    = Some ((Status ''error'' ''Serial port not available'', 500),
            \<lparr>ser = None, history = [], serial_buffer = [], listener_active = False\<rparr>, []) \<and>
   send_command (\<lambda>t. None :: unit option)
      \<lparr>ser = Some \<lparr>port = ''COM3'', is_open = False\<rparr>, history = [], serial_buffer = [],
        listener_active = True\<rparr> (Some ''PING'')
      \<lparr>since_clock = 0, write_result = Returns (), start_clock = 0, polls = [], log_clock = ''''\<rparr>
    = Some ((Status ''error'' ''Serial port not available'', 500),
            \<lparr>ser = Some \<lparr>port = ''COM3'', is_open = False\<rparr>, history = [], serial_buffer = [],
              listener_active = True\<rparr>, [])"
proof -
  let ?s1 = "\<lparr>ser = None, history = [], serial_buffer = [], listener_active = False\<rparr>"
  let ?s2 = "\<lparr>ser = Some \<lparr>port = ''COM3'', is_open = False\<rparr>, history = [], serial_buffer = [],
        listener_active = True\<rparr>"
  have 1: "ser ?s1 = None \<or> (\<exists>h. ser ?s1 = Some h \<and> \<not> is_open h)" by simp
  have 2: "ser ?s2 = None \<or> (\<exists>h. ser ?s2 = Some h \<and> \<not> is_open h)" by simp
  from send_while_disconnected [OF 1] send_while_disconnected [OF 2] show ?thesis
    by blast
qed

text \<open>
  Claim C7. A send on an open connection, whose write succeeds and whose correlator returns
  a text other than the sentinel, replies: the parsed payload when the text parses as JSON;
  otherwise success with the text as message when it starts with \<^verbatim>\<open>ACK\<close>; otherwise
  error with the text as message when it starts with \<^verbatim>\<open>ERR\<close>; otherwise unknown
  with the text as message.
\<close>

theorem send_classifies_response:
  assumes "ser s = Some h" and "is_open h" and "write_result io = Returns ()"
    and "wait_for_new_response (since_clock io) 2 (start_clock io) (polls io) = Some resp"
    and "resp \<noteq> ''No response''"
  shows "(\<forall>parsed. json_loads resp = Some parsed \<longrightarrow>
            map_option fst (send_command json_loads s (Some command) io)
              = Some (Parsed parsed, 200)) \<and>
         (json_loads resp = None \<and> prefix ''ACK'' resp \<longrightarrow>
            map_option fst (send_command json_loads s (Some command) io)
              = Some (Status ''success'' resp, 200)) \<and>
         (json_loads resp = None \<and> \<not> prefix ''ACK'' resp \<and> prefix ''ERR'' resp \<longrightarrow>
            map_option fst (send_command json_loads s (Some command) io)
              = Some (Status ''error'' resp, 200)) \<and>
         (json_loads resp = None \<and> \<not> prefix ''ACK'' resp \<and> \<not> prefix ''ERR'' resp \<longrightarrow>
            map_option fst (send_command json_loads s (Some command) io)
              = Some (Status ''unknown'' resp, 200))"
proof -
  have eq: "map_option fst (send_command json_loads s (Some command) io)
      = Some (reply_for json_loads resp)"
    using assms(1-4) by (simp add: send_command_connected)
  show ?thesis
    unfolding eq using assms(5) by (simp add: reply_for_def)
qed

theorem send_classifies_response_witness:
  "map_option fst (send_command (\<lambda>t. if t = ''7'' then Some (7::int) else None)
       s_open (Some ''GET'') (io_reply ''7''))
     = Some (Parsed 7, 200) \<and>
   map_option fst (send_command (\<lambda>t. if t = ''7'' then Some (7::int) else None)
       s_open (Some ''PING'') (io_reply ''ACK PING''))
     = Some (Status ''success'' ''ACK PING'', 200) \<and>
   map_option fst (send_command (\<lambda>t. if t = ''7'' then Some (7::int) else None)
       s_open (Some ''BADCMD'') (io_reply ''ERR unknown''))
     = Some (Status ''error'' ''ERR unknown'', 200) \<and>
   map_option fst (send_command (\<lambda>t. if t = ''7'' then Some (7::int) else None)
       s_open (Some ''HELLO'') (io_reply ''ready''))
     = Some (Status ''unknown'' ''ready'', 200)"
proof -
  let ?jl = "\<lambda>t. if t = ''7'' then Some (7::int) else None"
  have 1: "ser s_open = Some \<lparr>port = ''COM3'', is_open = True\<rparr>"
    by (simp add: s_open_def)
  have 2: "is_open \<lparr>port = ''COM3'', is_open = True\<rparr>"
    by simp
  have 3: "write_result (io_reply t) = Returns ()" for t
    by (simp add: io_reply_def)
  have 4: "wait_for_new_response (since_clock (io_reply t)) 2 (start_clock (io_reply t))
      (polls (io_reply t)) = Some t" for t
    by (simp add: io_reply_def wait_for_new_response_def returned_text_def grace_def)
  have a: "''7'' \<noteq> ''No response''" and b: "''ACK PING'' \<noteq> ''No response''"
    and c: "''ERR unknown'' \<noteq> ''No response''" and d: "''ready'' \<noteq> ''No response''"
    by simp_all
  from send_classifies_response [OF 1 2 3 4 a, of ?jl "''GET''"]
    send_classifies_response [OF 1 2 3 4 b, of ?jl "''PING''"]
    send_classifies_response [OF 1 2 3 4 c, of ?jl "''BADCMD''"]
    send_classifies_response [OF 1 2 3 4 d, of ?jl "''HELLO''"]
  show ?thesis
    by simp
qed

text \<open>
  Claim C9. The sentinel of the timeout is the string \<^verbatim>\<open>"No response"\<close> and the send
  tests for it by equality. So when the correlator leaves through its match exit with a
  device line whose text is exactly that string, the send replies
  \<^verbatim>\<open>No response from robot\<close>, and the whole result (reply, history entry, bytes
  written) is the one of a send whose correlator timed out.
\<close>

theorem device_line_equal_to_sentinel:
  assumes "ser s = Some h" and "is_open h" and "write_result io = Returns ()"
    and "wait_loop (since_clock io) 2 (start_clock io) (polls io) = Some (Matched r)"
    and "data r = ''No response''"
    and "write_result io' = Returns ()"
    and "wait_loop (since_clock io') 2 (start_clock io') (polls io') = Some Timed_out"
    and "log_clock io' = log_clock io"
  shows "send_command json_loads s (Some command) io
           = Some ((Status ''error'' ''No response from robot'', 200),
                   s\<lparr>history := log_command (history s) (strip command) ''No response''
                                  (log_clock io)\<rparr>,
                   [strip command @ [CHR 0x0A]]) \<and>
         send_command json_loads s (Some command) io'
           = send_command json_loads s (Some command) io"
proof -
  have a: "wait_for_new_response (since_clock io) 2 (start_clock io) (polls io)
      = Some ''No response''"
    using assms(4,5) by (simp add: wait_for_new_response_def returned_text_def)
  have b: "wait_for_new_response (since_clock io') 2 (start_clock io') (polls io')
      = Some ''No response''"
    using assms(7) by (simp add: wait_for_new_response_def returned_text_def)
  have r: "reply_for json_loads ''No response'' = (Status ''error'' ''No response from robot'', 200)"
    by (simp add: reply_for_def)
  show ?thesis
    using assms(8)
    by (simp add: send_command_connected [OF assms(1,2,3) a]
        send_command_connected [OF assms(1,2,6) b] r)
qed

theorem device_line_equal_to_sentinel_witness:
  "send_command (\<lambda>t. None :: unit option) s_open (Some ''STATUS'') (io_reply ''No response'')
     = Some ((Status ''error'' ''No response from robot'', 200),
             s_open\<lparr>history := [\<lparr>cmd = ''STATUS'', response = ''No response'',
                                  logged_at = ''2024-01-01T00:00:10''\<rparr>]\<rparr>,
             [''STATUS'' @ [CHR 0x0A]]) \<and>
   send_command (\<lambda>t. None :: unit option) s_open (Some ''STATUS'') io_silent
     = send_command (\<lambda>t. None :: unit option) s_open (Some ''STATUS'') (io_reply ''No response'')"
proof -
  let ?io = "io_reply ''No response''"
  have 1: "ser s_open = Some \<lparr>port = ''COM3'', is_open = True\<rparr>" by (simp add: s_open_def)
  have 2: "is_open \<lparr>port = ''COM3'', is_open = True\<rparr>" by simp
  have 3: "write_result ?io = Returns ()" by (simp add: io_reply_def)
  have 4: "wait_loop (since_clock ?io) 2 (start_clock ?io) (polls ?io)
      = Some (Matched \<lparr>timestamp = 10.05, data = ''No response''\<rparr>)"
    by (simp add: io_reply_def grace_def)
  have 5: "data \<lparr>timestamp = 10.05, data = ''No response''\<rparr> = ''No response''" by simp
  have 6: "write_result io_silent = Returns ()" by (simp add: io_silent_def)
  have 7: "wait_loop (since_clock io_silent) 2 (start_clock io_silent) (polls io_silent)
      = Some Timed_out"
    by (simp add: io_silent_def grace_def)
  have 8: "log_clock io_silent = log_clock ?io" by (simp add: io_silent_def io_reply_def)
  have st: "strip ''STATUS'' = ''STATUS''" by (simp add: strip_def is_space_def)
  from device_line_equal_to_sentinel [OF 1 2 3 4 5 6 7 8, of "\<lambda>t. None :: unit option" "''STATUS''"]
  show ?thesis
    by (simp add: st log_command_def s_open_def io_reply_def)
qed

text \<open>
  Claim C10. A connect made with a port while a connection is open closes the handle before
  it opens the new port. When opening raises, the call replies with the error (the text of
  the exception), and the state it leaves has \<^verbatim>\<open>ser\<close> still referring to the old
  handle, now closed: \<^verbatim>\<open>ser\<close> is not \<^verbatim>\<open>None\<close> and no connection is open.
\<close>

theorem connect_failure_leaves_closed_handle:
  assumes "ser s = Some h" and "is_open h" and "p \<noteq> []"
    and "close_result io = Returns ()" and "open_result io = Raises e"
  shows "(connect s (Some p) io :: 'j reply \<times> state)
           = ((Status ''error'' e, 200), s\<lparr>ser := Some (h\<lparr>is_open := False\<rparr>)\<rparr>) \<and>
         ser (snd (connect s (Some p) io :: 'j reply \<times> state)) \<noteq> None \<and>
         \<not> is_open (the (ser (snd (connect s (Some p) io :: 'j reply \<times> state))))"
  using assms by (simp add: connect_def)

theorem connect_failure_leaves_closed_handle_witness:
  "(connect s_open (Some ''COM9'')
      \<lparr>close_result = Returns (), open_result = Raises ''could not open port COM9''\<rparr>
     :: unit reply \<times> state)
     = ((Status ''error'' ''could not open port COM9'', 200),
        s_open\<lparr>ser := Some \<lparr>port = ''COM3'', is_open = False\<rparr>\<rparr>)"
proof -
  let ?io = "\<lparr>close_result = Returns (), open_result = Raises ''could not open port COM9''\<rparr>"
  have 1: "ser s_open = Some \<lparr>port = ''COM3'', is_open = True\<rparr>" by (simp add: s_open_def)
  have 2: "is_open \<lparr>port = ''COM3'', is_open = True\<rparr>" by simp
  have 3: "''COM9'' \<noteq> []" by simp
  have 4: "close_result ?io = Returns ()" by simp
  have 5: "open_result ?io = Raises ''could not open port COM9''" by simp
  from connect_failure_leaves_closed_handle [OF 1 2 3 4 5, where ?'j = unit] show ?thesis
    by simp
qed

subsection \<open>The listener and the liveness flag\<close>






subsection \<open>The lock and the port\<close>

text \<open>
  Claim C1. The listener makes its calls on the port while it holds the lock. The gateway
  does not: \<^verbatim>\<open>send_command\<close> calls \<^verbatim>\<open>ser.write\<close> before it takes the lock for
  the first time (the lock is taken only inside \<^verbatim>\<open>wait_for_new_response\<close>, around the
  snapshot of the buffer). So there is a schedule in which the listener has taken the lock
  and tested \<^verbatim>\<open>in_waiting\<close>, and the gateway writes before the listener's
  \<^verbatim>\<open>readline\<close>.
\<close>

theorem gateway_write_not_under_lock:
  "port_io_locked False serial_listener_actions \<and>
   \<not> port_io_locked False (send_command_actions n matched) \<and>
   run [Listener, Listener, Gateway, Gateway]
     \<lparr>owner = None, listener_todo = serial_listener_actions,
      gateway_todo = send_command_actions 0 True, write_during_read = False\<rparr>
   = Some \<lparr>owner = Some Listener,
           listener_todo = [Readline, Clock, Append, Release, Sleep],
           gateway_todo = wait_for_new_response_actions 0 True @ [Clock, Log],
           write_during_read = True\<rparr>"
proof -
  have l: "port_io_locked False serial_listener_actions"
    by (simp add: serial_listener_actions_def port_io_def)
  have g: "\<not> port_io_locked False (send_command_actions n matched)"
    by (simp add: send_command_actions_def port_io_def)
  have r: "run [Listener, Listener, Gateway, Gateway]
     \<lparr>owner = None, listener_todo = serial_listener_actions,
      gateway_todo = send_command_actions 0 True, write_during_read = False\<rparr>
   = Some \<lparr>owner = Some Listener,
           listener_todo = [Readline, Clock, Append, Release, Sleep],
           gateway_todo = wait_for_new_response_actions 0 True @ [Clock, Log],
           write_during_read = True\<rparr>"
    by (simp add: step_def serial_listener_actions_def send_command_actions_def)
  from l g r show ?thesis by blast
qed

end
